theory Spec2Isabelle
  imports Main "HOL-Library.Word"
begin

section \<open>The request handler of the CORS proxy (src/index.ts, lines 92 to 161)\<close>

text \<open>
  The development embeds the callback registered by \<^verbatim>\<open>app.get("/*", ...)\<close>: the
  function that runs once both rate limiters have let a request through. The handler is
  asynchronous code over four outside services (the URL parser, the DNS resolver, the
  range test of addresses and the HTTP client). They are fields of an environment, and
  every call the handler makes to the resolver or to the HTTP client is written to a
  trace, in the order of the \<^verbatim>\<open>await\<close>s. An exception is a \<open>None\<close>; every
  \<^verbatim>\<open>catch\<close> of the source is a branch of the model.
\<close>

subsection \<open>Constants and payloads\<close>

definition MAX_SIZE :: nat where
  "MAX_SIZE = 1 * 1000 * 1000"

record payload =
  code :: nat
  message :: string
  details :: string

definition TOO_LARGE_RESPONSE :: payload where
  "TOO_LARGE_RESPONSE = \<lparr>code = 413, message = ''Response data is too large'',
     details = ''We are sorry, but the response you request in this proxy is too large. To prevent abuse, we blocked the request. Please try again later. We apologize for the inconvenience. If you are a developer and want unrestricted access, you can consider self-deployment. The source code is available at https://github.com/alikia2x/cors-proxy, feel free to hack it and deploy yours.''\<rparr>"

definition TYPE_NOT_ALLOED :: payload where
  "TYPE_NOT_ALLOED = \<lparr>code = 400, message = ''Bad request'',
     details = ''The response data is not in JSON format, which is not allowed in order to prevent abuse. We only accept API request proxy.''\<rparr>"

definition ACCESS_DENIED :: payload where
  "ACCESS_DENIED = \<lparr>code = 403, message = ''Forbidden'',
     details = ''Access to the requested URL is blocked''\<rparr>"

definition MISSING_URL_PARAM :: payload where
  "MISSING_URL_PARAM = \<lparr>code = 400, message = ''Bad request'',
     details = ''URL parameter is required''\<rparr>"

text \<open>The object literal of the last \<^verbatim>\<open>catch\<close> (lines 155 to 159); the source gives it no name.\<close>

definition FETCH_ERROR :: payload where
  "FETCH_ERROR = \<lparr>code = 500, message = ''Internal server error'',
     details = ''Error fetching the URL''\<rparr>"

definition blockedRanges :: "string list" where
  "blockedRanges =
     [''192.168.0.0/16'', ''10.0.0.0/8'', ''fe80::/10'', ''fc00::/7'', ''127.0.0.0/8'',
      ''::1/128'', ''172.16.0.0/12'', ''169.254.0.0/16'', ''fd00::/8'', ''100.64.0.0/10'']"

subsection \<open>JavaScript values: what \<^verbatim>\<open>response.data\<close> can be\<close>

text \<open>
  A JavaScript string is a sequence of UTF-16 code units and \<^verbatim>\<open>.length\<close> counts them.
  With the client's default configuration \<^verbatim>\<open>response.data\<close> is the value read from
  the body as JSON, or the body as a string when it is not JSON. A number is kept as the
  text \<^verbatim>\<open>Number.prototype.toString\<close> prints for it, with the integer that
  \<^verbatim>\<open>n | 0\<close> makes of it.
\<close>

type_synonym js_string = "16 word list"

definition js :: "string \<Rightarrow> js_string" where
  "js s = map of_char s"

datatype js_value =
    JNull
  | JBool bool
  | JNum js_string int
  | JStr js_string
  | JArr "js_value list"
  | JObj "(js_string \<times> js_value) list"

text \<open>\<^verbatim>\<open>Array.prototype.join\<close> with the separator \<^verbatim>\<open>","\<close>, over the elements already turned into
  strings; an element whose conversion throws makes the whole call throw.\<close>

fun join_comma :: "js_string option list \<Rightarrow> js_string option" where
  "join_comma [] = Some []"
| "join_comma [x] = x"
| "join_comma (x # y # ys) =
     (case x of
        None \<Rightarrow> None
      | Some s \<Rightarrow> (case join_comma (y # ys) of None \<Rightarrow> None | Some r \<Rightarrow> Some (s @ js '','' @ r)))"

text \<open>
  \<^verbatim>\<open>v.toString()\<close>, \<open>None\<close> when the call throws a TypeError: on \<^verbatim>\<open>null\<close>, and on an
  object that has a key \<^verbatim>\<open>toString\<close> of its own (its value came from JSON, so it is not a
  function). Inside an array \<^verbatim>\<open>join\<close> prints \<^verbatim>\<open>null\<close> as the empty string.
\<close>

primrec toString :: "js_value \<Rightarrow> js_string option" where
  "toString JNull = None"
| "toString (JBool b) = Some (js (if b then ''true'' else ''false''))"
| "toString (JNum s v) = Some s"
| "toString (JStr s) = Some s"
| "toString (JArr vs) =
     join_comma (map2 (\<lambda>v r. if v = JNull then Some [] else r) vs (map toString vs))"
| "toString (JObj kvs) =
     (if js ''toString'' \<in> set (map fst kvs) then None else Some (js ''[object Object]''))"



subsection \<open>The environment and the replies\<close>

record url =
  hostname :: string

record response =
  status :: nat
  contentType :: "string option"
  contentLength :: "string option"
  data :: js_value

text \<open>
  \<open>parseURL\<close> is \<^verbatim>\<open>new URL(s)\<close> (\<open>None\<close>: it throws); \<open>resolve4\<close> and \<open>resolve6\<close> are the
  two lookups (\<open>None\<close>: the promise is rejected); \<open>ipRangeCheck\<close> is the package of that
  name; \<open>upstream_head\<close> and \<open>upstream_get\<close> are what the target answers to one HEAD or
  GET request, with the headers as \<^verbatim>\<open>getContentType()\<close> and \<^verbatim>\<open>getContentLength()\<close>
  read them (\<open>None\<close>: no answer, or a header that is \<^verbatim>\<open>undefined\<close>).
\<close>

record env =
  parseURL :: "string \<Rightarrow> url option"
  resolve4 :: "string \<Rightarrow> string list option"
  resolve6 :: "string \<Rightarrow> string list option"
  ipRangeCheck :: "string \<Rightarrow> string list \<Rightarrow> bool"
  upstream_head :: "string \<Rightarrow> response option"
  upstream_get :: "string \<Rightarrow> response option"

text \<open>A call made to the outside; the number is the \<^verbatim>\<open>maxRedirects\<close> option passed.\<close>

datatype event =
    Resolve4 string
  | Resolve6 string
  | Head string nat
  | Get string nat

text \<open>
  What the caller is answered. \<open>StatusJson n p\<close> is \<^verbatim>\<open>res.status(n).json(p)\<close>.
  \<open>Send d\<close> is \<^verbatim>\<open>res.send(d)\<close> for a value that is not a number: the status stays at
  its default 200 and the body is \<open>d\<close> as Express writes it (a string as it is,
  \<^verbatim>\<open>null\<close> as the empty body, any other value as JSON). \<open>SendStatus n\<close> is the
  answer to \<^verbatim>\<open>res.send(n)\<close> for a number: Express 4 reads a lone number as a status
  code, so the status is \<open>n\<close> and the body is the status text, not the number; the
  handler never answers \<open>Send\<close> of a number (\<open>handler_never_sends_number\<close>). A request
  is its path alone; conditional request headers, under which Express may answer 304
  where it would answer 200, are not part of it.
\<close>

datatype reply =
    StatusJson nat payload
  | Send js_value
  | SendStatus nat

fun http_status :: "reply \<Rightarrow> nat" where
  "http_status (StatusJson n p) = n"
| "http_status (Send d) = 200"
| "http_status (SendStatus n) = n"

text \<open>
  \<^verbatim>\<open>res.send(d)\<close>, \<open>None\<close> when it throws. For a number Express 4 sets
  \<^verbatim>\<open>statusCode\<close> to it, and writing the head throws a RangeError unless
  \<^verbatim>\<open>statusCode | 0\<close> lies between 100 and 999.
\<close>

fun res_send :: "js_value \<Rightarrow> reply option" where
  "res_send (JNum s v) = (if 100 \<le> v \<and> v \<le> 999 then Some (SendStatus (nat v)) else None)"
| "res_send d = Some (Send d)"

text \<open>\<^verbatim>\<open>return res.send(response.data)\<close> on lines 151 and 153: both stand inside the outer
  \<^verbatim>\<open>try\<close>, so a throw of \<^verbatim>\<open>res.send\<close> is caught on line 154.\<close>

definition send_caught :: "js_value \<Rightarrow> reply" where
  "send_caught d = (case res_send d of None \<Rightarrow> StatusJson 500 FETCH_ERROR | Some r \<Rightarrow> r)"

subsection \<open>The HTTP client\<close>

text \<open>
  With \<^verbatim>\<open>maxRedirects: 0\<close> the client sends one request and follows nothing. No
  \<^verbatim>\<open>validateStatus\<close> is passed, so the default applies: the promise is fulfilled for
  a status from 200 to 299 and rejected for any other.
\<close>

definition validateStatus :: "nat \<Rightarrow> bool" where
  "validateStatus s = (200 \<le> s \<and> s < 300)"

definition axios_settle :: "response option \<Rightarrow> response option" where
  "axios_settle answer =
     (case answer of
        None \<Rightarrow> None
      | Some r \<Rightarrow> if validateStatus (status r) then Some r else None)"

definition startsWith :: "string \<Rightarrow> string \<Rightarrow> bool" where
  "startsWith s p = (take (length p) s = p)"

text \<open>\<^verbatim>\<open>!x\<close> on a header value, and the number JavaScript compares a boolean as.\<close>

definition js_not :: "string option \<Rightarrow> bool" where
  "js_not x = (case x of None \<Rightarrow> True | Some s \<Rightarrow> s = [])"

definition to_number :: "bool \<Rightarrow> nat" where
  "to_number b = (if b then 1 else 0)"

subsection \<open>The three stages of the handler\<close>

text \<open>The results of \<^verbatim>\<open>await dns.resolve4(hostname).catch(() => [])\<close> and of the same
  for \<^verbatim>\<open>resolve6\<close>, and the two locals computed from them.\<close>

definition addresses :: "env \<Rightarrow> string \<Rightarrow> string list" where
  "addresses e h = (case resolve4 e h of None \<Rightarrow> [] | Some xs \<Rightarrow> xs)"

definition ipv6Addresses :: "env \<Rightarrow> string \<Rightarrow> string list" where
  "ipv6Addresses e h = (case resolve6 e h of None \<Rightarrow> [] | Some xs \<Rightarrow> xs)"

definition allAddresses :: "env \<Rightarrow> string \<Rightarrow> string list" where
  "allAddresses e h = addresses e h @ ipv6Addresses e h"

definition isBlocked :: "env \<Rightarrow> string \<Rightarrow> bool" where
  "isBlocked e h = list_ex (\<lambda>address. ipRangeCheck e address blockedRanges) (allAddresses e h)"

text \<open>Lines 99 to 119. \<open>Some\<close> is a reply that ends the request, \<open>None\<close> falls out of the
  \<^verbatim>\<open>try\<close> block to the next stage.\<close>

definition guard :: "env \<Rightarrow> string \<Rightarrow> reply option \<times> event list" where
  "guard e targetUrl =
     (case parseURL e targetUrl of
        None \<Rightarrow> (Some (StatusJson 403 ACCESS_DENIED), [])
      | Some parsedUrl \<Rightarrow>
          (if hostname parsedUrl = ''localhost'' \<or> isBlocked e (hostname parsedUrl)
           then Some (StatusJson 403 ACCESS_DENIED) else None,
           [Resolve4 (hostname parsedUrl), Resolve6 (hostname parsedUrl)]))"

text \<open>Lines 121 to 136. A header that is \<^verbatim>\<open>undefined\<close> makes \<^verbatim>\<open>startsWith\<close> throw, and the
  empty \<^verbatim>\<open>catch\<close> swallows that like a failed request.\<close>

definition probe :: "env \<Rightarrow> string \<Rightarrow> reply option \<times> event list" where
  "probe e targetUrl =
     (case axios_settle (upstream_head e targetUrl) of
        None \<Rightarrow> None
      | Some headResponse \<Rightarrow>
          (case contentType headResponse of
             None \<Rightarrow> None
           | Some ct \<Rightarrow>
               if \<not> startsWith ct ''application/json'' then Some (StatusJson 400 TYPE_NOT_ALLOED)
               else if to_number (js_not (contentLength headResponse)) > MAX_SIZE
                 then Some (StatusJson 413 TOO_LARGE_RESPONSE)
               else None),
      [Head targetUrl 0])"

text \<open>Lines 138 to 160.\<close>

definition fetch :: "env \<Rightarrow> string \<Rightarrow> reply \<times> event list" where
  "fetch e targetUrl =
     (case axios_settle (upstream_get e targetUrl) of
        None \<Rightarrow> StatusJson 500 FETCH_ERROR
      | Some response \<Rightarrow>
          (case contentType response of
             None \<Rightarrow> StatusJson 500 FETCH_ERROR
           | Some ct \<Rightarrow>
               if \<not> startsWith ct ''application/json'' then StatusJson 400 TYPE_NOT_ALLOED
               else (case toString (data response) of
                       None \<Rightarrow> send_caught (data response)
                     | Some s \<Rightarrow>
                         if length s > MAX_SIZE then StatusJson 413 TOO_LARGE_RESPONSE
                         else send_caught (data response))),
      [Get targetUrl 0])"

text \<open>The handler: \<open>path\<close> is \<^verbatim>\<open>req.path\<close>, the reply comes with the trace of the calls made.\<close>

definition handler :: "env \<Rightarrow> string \<Rightarrow> reply \<times> event list" where
  "handler e path =
     (let targetUrl = drop 1 path in
      if targetUrl = [] then (StatusJson 400 MISSING_URL_PARAM, [])
      else
        (case guard e targetUrl of
           (Some r, t1) \<Rightarrow> (r, t1)
         | (None, t1) \<Rightarrow>
             (case probe e targetUrl of
                (Some r, t2) \<Rightarrow> (r, t1 @ t2)
              | (None, t2) \<Rightarrow> (case fetch e targetUrl of (r, t3) \<Rightarrow> (r, t1 @ t2 @ t3)))))"

subsection \<open>Sample environments\<close>

text \<open>A range test that knows three of the blocked ranges, for addresses in dotted notation.\<close>

definition sample_ranges :: "string \<Rightarrow> string list \<Rightarrow> bool" where
  "sample_ranges address ranges =
     (startsWith address ''10.'' \<and> ''10.0.0.0/8'' \<in> set ranges
      \<or> startsWith address ''127.'' \<and> ''127.0.0.0/8'' \<in> set ranges
      \<or> startsWith address ''192.168.'' \<and> ''192.168.0.0/16'' \<in> set ranges)"

text \<open>The target \<open>t\<close> parses to the host \<open>h\<close>, which has one public IPv4 address and no
  IPv6 address; the target answers neither HEAD nor GET.\<close>

definition public_host :: "string \<Rightarrow> string \<Rightarrow> env" where
  "public_host t h =
     \<lparr>parseURL = [t \<mapsto> \<lparr>hostname = h\<rparr>],
      resolve4 = [h \<mapsto> [''93.184.216.34'']],
      resolve6 = Map.empty,
      ipRangeCheck = sample_ranges,
      upstream_head = Map.empty,
      upstream_get = Map.empty\<rparr>"

definition answer :: "nat \<Rightarrow> string \<Rightarrow> js_value \<Rightarrow> response" where
  "answer s ct d = \<lparr>status = s, contentType = Some ct, contentLength = None, data = d\<rparr>"

text \<open>A name with one public and one private address.\<close>

definition rebind_env :: env where
  "rebind_env = (public_host ''https://rebind.example/x'' ''rebind.example'')
     \<lparr>resolve4 := [''rebind.example'' \<mapsto> [''93.184.216.34'', ''10.0.0.5'']]\<rparr>"




text \<open>The body \<^verbatim>\<open>{"id":1}\<close>.\<close>

definition small_env :: env where
  "small_env = (public_host ''https://api.example.com/users/1'' ''api.example.com'')
     \<lparr>upstream_get := [''https://api.example.com/users/1'' \<mapsto>
        answer 200 ''application/json'' (JObj [(js ''id'', JNum (js ''1'') 1)])]\<rparr>"

text \<open>\<^verbatim>\<open>http://localhost/admin\<close>, with a resolver that knows the name.\<close>

definition localhost_env :: env where
  "localhost_env = (public_host ''http://localhost/admin'' ''localhost'')
     \<lparr>resolve4 := [''localhost'' \<mapsto> [''127.0.0.1'']]\<rparr>"





text \<open>A target that answers GET with a redirect.\<close>

definition redirect_env :: env where
  "redirect_env = (public_host ''https://api.example.com/old'' ''api.example.com'')
     \<lparr>upstream_get := [''https://api.example.com/old'' \<mapsto>
        answer 302 ''application/json'' (JStr [])]\<rparr>"

text \<open>A target that declares two million bytes of JSON to HEAD and sends them to GET.\<close>

definition declared_env :: env where
  "declared_env = (public_host ''https://api.example.com/dump'' ''api.example.com'')
     \<lparr>upstream_head := [''https://api.example.com/dump'' \<mapsto>
        \<lparr>status = 200, contentType = Some ''application/json'',
         contentLength = Some ''2000000'', data = JStr []\<rparr>],
      upstream_get := [''https://api.example.com/dump'' \<mapsto>
        \<lparr>status = 200, contentType = Some ''application/json'',
         contentLength = Some ''2000000'', data = JStr (replicate 2000000 0x61)\<rparr>]\<rparr>"

text \<open>A target that answers GET with 301.\<close>

definition moved_env :: env where
  "moved_env = (public_host ''http://example.org/a'' ''example.org'')
     \<lparr>upstream_get := [''http://example.org/a'' \<mapsto> answer 301 ''text/html'' (JStr [])]\<rparr>"

text \<open>An FTP URL: it parses, and the HTTP client refuses the scheme.\<close>

definition ftp_env :: env where
  "ftp_env = public_host ''ftp://example.com/file'' ''example.com''"

text \<open>A \<^verbatim>\<open>mailto:\<close> URL: it parses, to an empty host name that no lookup finds.\<close>

definition mail_env :: env where
  "mail_env = (public_host ''mailto:someone@example.com'' [])\<lparr>resolve4 := Map.empty\<rparr>"






text \<open>The body \<^verbatim>\<open>null\<close>.\<close>

definition null_env :: env where
  "null_env = (public_host ''https://api.example.com/none'' ''api.example.com'')
     \<lparr>upstream_get := [''https://api.example.com/none'' \<mapsto>
        answer 200 ''application/json'' JNull]\<rparr>"

section \<open>Properties of the handler\<close>

subsection \<open>Lemmas shared by the theorems\<close>

lemmas stage_defs = guard_def probe_def fetch_def isBlocked_def allAddresses_def
  addresses_def ipv6Addresses_def axios_settle_def validateStatus_def startsWith_def
  js_not_def to_number_def MAX_SIZE_def blockedRanges_def send_caught_def

lemmas sample_defs = public_host_def answer_def sample_ranges_def js_def

lemma handler_nonempty:
  "targetUrl \<noteq> [] \<Longrightarrow> handler e (CHR ''/'' # targetUrl) =
     (case guard e targetUrl of
        (Some r, t1) \<Rightarrow> (r, t1)
      | (None, t1) \<Rightarrow>
          (case probe e targetUrl of
             (Some r, t2) \<Rightarrow> (r, t1 @ t2)
           | (None, t2) \<Rightarrow> (case fetch e targetUrl of (r, t3) \<Rightarrow> (r, t1 @ t2 @ t3))))"
  by (simp add: handler_def)

lemma isBlocked_iff:
  "isBlocked e h \<longleftrightarrow>
     (\<exists>a \<in> set (addresses e h) \<union> set (ipv6Addresses e h). ipRangeCheck e a blockedRanges)"
  by (auto simp: isBlocked_def allAddresses_def list_ex_iff)

lemma guard_reject:
  "parseURL e t = Some u \<Longrightarrow> hostname u = ''localhost'' \<or> isBlocked e (hostname u) \<Longrightarrow>
   guard e t = (Some (StatusJson 403 ACCESS_DENIED), [Resolve4 (hostname u), Resolve6 (hostname u)])"
  by (simp add: guard_def)

lemma guard_pass:
  "parseURL e t = Some u \<Longrightarrow> hostname u \<noteq> ''localhost'' \<Longrightarrow> \<not> isBlocked e (hostname u) \<Longrightarrow>
   guard e t = (None, [Resolve4 (hostname u), Resolve6 (hostname u)])"
  by (simp add: guard_def)

lemma guard_unparsed:
  "parseURL e t = None \<Longrightarrow> guard e t = (Some (StatusJson 403 ACCESS_DENIED), [])"
  by (simp add: guard_def)

lemma snd_probe: "snd (probe e t) = [Head t 0]"
  by (simp add: probe_def)

lemma snd_fetch: "snd (fetch e t) = [Get t 0]"
  by (simp add: fetch_def)

lemma probe_never_413: "fst (probe e t) \<noteq> Some (StatusJson 413 p)"
  by (simp add: probe_def to_number_def MAX_SIZE_def split: option.splits)

lemma probe_reply: "fst (probe e t) = Some r \<Longrightarrow> r = StatusJson 400 TYPE_NOT_ALLOED"
  by (simp add: probe_def to_number_def MAX_SIZE_def split: option.splits if_splits)

lemma send_caught_cases:
  "send_caught d = StatusJson 500 FETCH_ERROR \<or> send_caught d = Send d
   \<or> (\<exists>n. send_caught d = SendStatus n)"
  by (cases d) (simp_all add: send_caught_def)

lemma send_caught_Send: "send_caught d = Send d' \<Longrightarrow> d' = d"
  by (cases d) (simp_all add: send_caught_def split: if_splits)

lemma send_caught_thrown: "toString d = None \<Longrightarrow> send_caught d = Send d"
  by (cases d) (simp_all add: send_caught_def)


lemma fetch_reply:
  "fst (fetch e t) = StatusJson 500 FETCH_ERROR \<or> fst (fetch e t) = StatusJson 400 TYPE_NOT_ALLOED
   \<or> fst (fetch e t) = StatusJson 413 TOO_LARGE_RESPONSE
   \<or> (\<exists>d. fst (fetch e t) = Send d) \<or> (\<exists>n. fst (fetch e t) = SendStatus n)"
  using send_caught_cases by (fastforce simp: fetch_def split: option.splits)

lemma guard_reply: "fst (guard e t) = Some r \<Longrightarrow> r = StatusJson 403 ACCESS_DENIED"
  by (auto simp: guard_def split: option.splits if_splits)

lemma handler_reaches_fetch:
  "targetUrl \<noteq> [] \<Longrightarrow> fst (guard e targetUrl) = None \<Longrightarrow> fst (probe e targetUrl) = None \<Longrightarrow>
   handler e (CHR ''/'' # targetUrl) =
     (fst (fetch e targetUrl), snd (guard e targetUrl) @ [Head targetUrl 0, Get targetUrl 0])"
  by (simp add: handler_nonempty case_prod_beta snd_probe snd_fetch)

lemma send_caught_never_number: "send_caught d \<noteq> Send (JNum s v)"
  by (cases d) (simp_all add: send_caught_def)

lemma fetch_never_sends_number: "fst (fetch e t) \<noteq> Send (JNum s v)"
  using send_caught_never_number by (auto simp: fetch_def split: option.splits if_splits)

lemma fetch_json:
  "axios_settle (upstream_get e t) = Some r \<Longrightarrow> contentType r = Some ct \<Longrightarrow>
   startsWith ct ''application/json'' \<Longrightarrow>
   fst (fetch e t) =
     (case toString (data r) of
        None \<Rightarrow> send_caught (data r)
      | Some s \<Rightarrow>
          if length s > MAX_SIZE then StatusJson 413 TOO_LARGE_RESPONSE else send_caught (data r))"
  by (simp add: fetch_def)


lemma fetch_send:
  "fst (fetch e t) = Send d \<Longrightarrow>
   \<exists>r ct. axios_settle (upstream_get e t) = Some r \<and> contentType r = Some ct
     \<and> startsWith ct ''application/json'' \<and> d = data r
     \<and> (\<forall>s. toString d = Some s \<longrightarrow> length s \<le> MAX_SIZE)"
  by (auto simp: fetch_def split: option.splits if_splits dest: send_caught_Send)

lemma handler_send:
  assumes "fst (handler e path) = Send d"
  shows "fst (fetch e (drop 1 path)) = Send d"
proof (cases "fst (guard e (drop 1 path))")
  case None
  show ?thesis
  proof (cases "fst (probe e (drop 1 path))")
    case inner: None
    with None assms show ?thesis
      by (simp add: handler_def Let_def case_prod_beta split: if_splits)
  next
    case (Some r)
    with None assms probe_reply [OF Some] show ?thesis
      by (simp add: handler_def Let_def case_prod_beta split: if_splits)
  qed
next
  case (Some r)
  with assms guard_reply [OF Some] show ?thesis
    by (simp add: handler_def Let_def case_prod_beta split: if_splits)
qed

lemma handler_never_sends_number: "fst (handler e path) \<noteq> Send (JNum s v)"
  using handler_send [of e path "JNum s v"] fetch_never_sends_number [of e "drop 1 path" s v]
  by blast



lemma handler_events:
  assumes "ev \<in> set (snd (handler e (CHR ''/'' # t)))"
  shows "(\<exists>h. ev = Resolve4 h \<or> ev = Resolve6 h) \<or> ev = Head t 0 \<or> ev = Get t 0"
proof (cases "t = []")
  case True
  with assms show ?thesis
    by (simp add: handler_def)
next
  case False
  have g: "set (snd (guard e t)) \<subseteq> {ev. \<exists>h. ev = Resolve4 h \<or> ev = Resolve6 h}"
    by (auto simp: guard_def split: option.splits)
  have "set (snd (handler e (CHR ''/'' # t))) \<subseteq> set (snd (guard e t)) \<union> {Head t 0, Get t 0}"
    using False snd_probe [of e t] snd_fetch [of e t]
    by (auto simp: handler_nonempty case_prod_beta split: option.splits)
  with assms g show ?thesis
    by blast
qed

lemma redirect_unsettled:
  "upstream_get e t = Some r \<Longrightarrow> 300 \<le> status r \<Longrightarrow> axios_settle (upstream_get e t) = None"
  by (simp add: axios_settle_def validateStatus_def)

lemma probe_type_rejected:
  "axios_settle (upstream_head e t) = Some r \<Longrightarrow> contentType r = Some ct \<Longrightarrow>
   \<not> startsWith ct ''application/json'' \<Longrightarrow>
   probe e t = (Some (StatusJson 400 TYPE_NOT_ALLOED), [Head t 0])"
  by (simp add: probe_def)

lemma probe_failure_swallowed:
  "axios_settle (upstream_head e t) = None \<Longrightarrow> probe e t = (None, [Head t 0])"
  by (simp add: probe_def)

lemma small_env_reply:
  "handler small_env ''/https://api.example.com/users/1'' =
     (Send (JObj [(js ''id'', JNum (js ''1'') 1)]),
      [Resolve4 ''api.example.com'', Resolve6 ''api.example.com'',
       Head ''https://api.example.com/users/1'' 0, Get ''https://api.example.com/users/1'' 0])"
  by (simp add: handler_def Let_def stage_defs small_env_def sample_defs)

lemma handler_passed:
  assumes "t \<noteq> []" and "guard e t = (None, tr)"
  shows "handler e (CHR ''/'' # t) =
    (case fst (probe e t) of
       Some r \<Rightarrow> (r, tr @ [Head t 0])
     | None \<Rightarrow> (fst (fetch e t), tr @ [Head t 0, Get t 0]))"
  using assms snd_probe [of e t] snd_fetch [of e t]
  by (simp add: handler_nonempty case_prod_beta split: option.splits)

lemma handler_not_denied:
  assumes "t \<noteq> []" and "fst (guard e t) = None"
  shows "fst (handler e (CHR ''/'' # t)) \<noteq> StatusJson 403 p"
proof (cases "fst (probe e t)")
  case None
  then have "fst (handler e (CHR ''/'' # t)) = fst (fetch e t)"
    using assms by (simp add: handler_reaches_fetch)
  then show ?thesis
    using fetch_reply [of e t] by auto
next
  case (Some r)
  then have "fst (handler e (CHR ''/'' # t)) = r"
    using assms by (simp add: handler_nonempty case_prod_beta)
  then show ?thesis
    using probe_reply [OF Some] by simp
qed


lemma size_check_measure:
  assumes "targetUrl \<noteq> []" and "fst (guard e targetUrl) = None"
    and "fst (probe e targetUrl) = None"
    and "axios_settle (upstream_get e targetUrl) = Some r" and "contentType r = Some ct"
    and "startsWith ct ''application/json''" and "toString (data r) = Some s"
  shows "fst (handler e (CHR ''/'' # targetUrl)) =
    (if MAX_SIZE < length s then StatusJson 413 TOO_LARGE_RESPONSE else send_caught (data r))"
  using assms by (simp add: handler_reaches_fetch fetch_json)

subsection \<open>Target resolution and the address guard\<close>

text \<open>
  Claim C1. Whenever the target parses and the addresses found by the A and AAAA lookups
  together contain one address that \<open>ipRangeCheck\<close> places in one of the blocked
  ranges, the handler answers 403 with \<open>ACCESS_DENIED\<close>, whatever the other addresses
  are; it has made the two lookups and no request to the target.
\<close>

theorem blocked_address_rejected:
  assumes "targetUrl \<noteq> []"
    and "parseURL e targetUrl = Some u"
    and "a \<in> set (addresses e (hostname u)) \<union> set (ipv6Addresses e (hostname u))"
    and "ipRangeCheck e a blockedRanges"
  shows "handler e (CHR ''/'' # targetUrl) =
    (StatusJson 403 ACCESS_DENIED, [Resolve4 (hostname u), Resolve6 (hostname u)])"
proof -
  have "isBlocked e (hostname u)"
    using assms(3,4) isBlocked_iff by blast
  then have "guard e targetUrl =
      (Some (StatusJson 403 ACCESS_DENIED), [Resolve4 (hostname u), Resolve6 (hostname u)])"
    using guard_reject [OF assms(2)] by simp
  then show ?thesis
    using assms(1) by (simp add: handler_nonempty)
qed

theorem blocked_address_rejected_witness:
  "''10.0.0.5'' \<in> set (addresses rebind_env ''rebind.example'')
   \<and> ''93.184.216.34'' \<in> set (addresses rebind_env ''rebind.example'')
   \<and> ipRangeCheck rebind_env ''10.0.0.5'' blockedRanges
   \<and> \<not> ipRangeCheck rebind_env ''93.184.216.34'' blockedRanges
   \<and> handler rebind_env ''/https://rebind.example/x'' =
       (StatusJson 403 ACCESS_DENIED, [Resolve4 ''rebind.example'', Resolve6 ''rebind.example''])"
proof -
  have h1: "''https://rebind.example/x'' \<noteq> []"
    by simp
  have h2: "parseURL rebind_env ''https://rebind.example/x'' = Some \<lparr>hostname = ''rebind.example''\<rparr>"
    by (simp add: rebind_env_def sample_defs)
  have h3: "''10.0.0.5'' \<in> set (addresses rebind_env (hostname \<lparr>hostname = ''rebind.example''\<rparr>))
      \<union> set (ipv6Addresses rebind_env (hostname \<lparr>hostname = ''rebind.example''\<rparr>))"
    by (simp add: rebind_env_def sample_defs addresses_def)
  have h4: "ipRangeCheck rebind_env ''10.0.0.5'' blockedRanges"
    by (simp add: rebind_env_def sample_defs startsWith_def blockedRanges_def)
  have h5: "\<not> ipRangeCheck rebind_env ''93.184.216.34'' blockedRanges"
    by (simp add: rebind_env_def sample_defs startsWith_def blockedRanges_def)
  have h6: "''93.184.216.34'' \<in> set (addresses rebind_env ''rebind.example'')"
    by (simp add: rebind_env_def sample_defs addresses_def)
  have h7: "''10.0.0.5'' \<in> set (addresses rebind_env ''rebind.example'')"
    by (simp add: rebind_env_def sample_defs addresses_def)
  show ?thesis
    using blocked_address_rejected [OF h1 h2 h3 h4] h4 h5 h6 h7 by simp
qed

text \<open>
  Claim C3, as the code has it. When the host name of the parsed target is \<open>localhost\<close>
  (the comparison is \<^verbatim>\<open>===\<close>, on the name as the URL parser returns it), the handler
  answers 403 with \<open>ACCESS_DENIED\<close>, and it does so after both lookups have been made
  for that name: the test of the name stands behind the two \<^verbatim>\<open>await\<close>s.
\<close>

theorem localhost_rejected_after_lookups:
  assumes "targetUrl \<noteq> []"
    and "parseURL e targetUrl = Some u"
    and "hostname u = ''localhost''"
  shows "handler e (CHR ''/'' # targetUrl) =
    (StatusJson 403 ACCESS_DENIED, [Resolve4 ''localhost'', Resolve6 ''localhost''])"
  using assms guard_reject [OF assms(2)] by (simp add: handler_nonempty)

theorem localhost_rejected_after_lookups_witness:
  "handler (public_host ''https://localhost:8443/metrics'' ''localhost'') ''/https://localhost:8443/metrics'' =
    (StatusJson 403 ACCESS_DENIED, [Resolve4 ''localhost'', Resolve6 ''localhost''])"
  using localhost_rejected_after_lookups [of "''https://localhost:8443/metrics''"
      "public_host ''https://localhost:8443/metrics'' ''localhost''" "\<lparr>hostname = ''localhost''\<rparr>"]
  by (simp add: public_host_def)

text \<open>
  Claim C3 as stated fails: for \<^verbatim>\<open>GET /http://localhost/admin\<close> the answer is 403, and
  the trace holds the A and the AAAA lookup of \<open>localhost\<close>.
\<close>

theorem localhost_lookups_performed:
  "fst (handler localhost_env ''/http://localhost/admin'') = StatusJson 403 ACCESS_DENIED
   \<and> snd (handler localhost_env ''/http://localhost/admin'') =
       [Resolve4 ''localhost'', Resolve6 ''localhost'']"
  by (simp add: handler_def Let_def guard_def localhost_env_def public_host_def)







text \<open>
  Claim C9, as the code has it. A target that \<^verbatim>\<open>new URL\<close> does not parse is answered
  403 with \<open>ACCESS_DENIED\<close>, the reply of a blocked address, before any lookup. That
  is the only test of the form of the target: a target that parses, with whatever scheme
  and host name, whose host is not \<open>localhost\<close> and has no blocked address, passes the
  guard and is probed, and no stage after the guard answers with
  \<^verbatim>\<open>res.status(403)\<close>.
\<close>

theorem unparsable_target_rejected:
  "(targetUrl \<noteq> [] \<longrightarrow> parseURL e targetUrl = None \<longrightarrow>
      handler e (CHR ''/'' # targetUrl) = (StatusJson 403 ACCESS_DENIED, []))
   \<and> (targetUrl' \<noteq> [] \<longrightarrow> parseURL e targetUrl' = Some u \<longrightarrow> hostname u \<noteq> ''localhost'' \<longrightarrow>
      \<not> isBlocked e (hostname u) \<longrightarrow>
      fst (handler e (CHR ''/'' # targetUrl')) \<noteq> StatusJson 403 p
      \<and> take 3 (snd (handler e (CHR ''/'' # targetUrl'))) =
          [Resolve4 (hostname u), Resolve6 (hostname u), Head targetUrl' 0])"
proof (intro conjI impI)
  assume "targetUrl \<noteq> []" and "parseURL e targetUrl = None"
  then show "handler e (CHR ''/'' # targetUrl) = (StatusJson 403 ACCESS_DENIED, [])"
    by (simp add: handler_nonempty guard_unparsed)
next
  assume t: "targetUrl' \<noteq> []" and p: "parseURL e targetUrl' = Some u"
    and h: "hostname u \<noteq> ''localhost''" and b: "\<not> isBlocked e (hostname u)"
  have pass: "guard e targetUrl' = (None, [Resolve4 (hostname u), Resolve6 (hostname u)])"
    using guard_pass [OF p h b] .
  then show "fst (handler e (CHR ''/'' # targetUrl')) \<noteq> StatusJson 403 p"
    using handler_not_denied [OF t, of e] by simp
  show "take 3 (snd (handler e (CHR ''/'' # targetUrl'))) =
      [Resolve4 (hostname u), Resolve6 (hostname u), Head targetUrl' 0]"
    using handler_passed [OF t pass] by (simp split: option.splits)
qed

theorem unparsable_target_rejected_witness:
  "handler mail_env ''/localhost/admin'' = (StatusJson 403 ACCESS_DENIED, [])
   \<and> parseURL mail_env ''mailto:someone@example.com'' = Some \<lparr>hostname = []\<rparr>
   \<and> fst (handler mail_env ''/mailto:someone@example.com'') \<noteq> StatusJson 403 ACCESS_DENIED
   \<and> take 3 (snd (handler mail_env ''/mailto:someone@example.com'')) =
       [Resolve4 [], Resolve6 [], Head ''mailto:someone@example.com'' 0]"
proof -
  let ?u = "\<lparr>hostname = []\<rparr>"
  have h1: "''localhost/admin'' \<noteq> []" and h2: "''mailto:someone@example.com'' \<noteq> []"
    by simp_all
  have h3: "parseURL mail_env ''localhost/admin'' = None"
    by (simp add: mail_env_def sample_defs)
  have h4: "parseURL mail_env ''mailto:someone@example.com'' = Some ?u"
    by (simp add: mail_env_def sample_defs)
  have h5: "hostname ?u \<noteq> ''localhost''"
    by simp
  have h6: "\<not> isBlocked mail_env (hostname ?u)"
    by (simp add: stage_defs mail_env_def sample_defs)
  show ?thesis
    using unparsable_target_rejected [of "''localhost/admin''" mail_env
        "''mailto:someone@example.com''" ?u ACCESS_DENIED] h1 h2 h3 h4 h5 h6
    by simp
qed

text \<open>
  Claim C9 as stated fails: \<^verbatim>\<open>ftp://example.com/file\<close> parses, passes the guard, and
  is answered 500 when the HTTP client refuses it.
\<close>

theorem other_scheme_not_403:
  "parseURL ftp_env ''ftp://example.com/file'' = Some \<lparr>hostname = ''example.com''\<rparr>
   \<and> handler ftp_env ''/ftp://example.com/file'' =
       (StatusJson 500 FETCH_ERROR,
        [Resolve4 ''example.com'', Resolve6 ''example.com'',
         Head ''ftp://example.com/file'' 0, Get ''ftp://example.com/file'' 0])"
  by (simp add: handler_def Let_def stage_defs ftp_env_def sample_defs)

subsection \<open>The probe\<close>

text \<open>
  Claim C8 at a failing input. The HEAD answer declares \<^verbatim>\<open>application/json\<close> and a
  content length of 2000000. Line 130 negates the header before it compares, so it
  compares a boolean with \<open>MAX_SIZE\<close>: the probe lets the request through, the body is
  fetched in full, and 413 is answered only after that. By \<open>probe_never_413\<close> the probe
  answers 413 for no input at all. A content type that does not start with
  \<^verbatim>\<open>application/json\<close> is answered 400 by the probe (\<open>probe_type_rejected\<close>), and
  a probe that fails is swallowed (\<open>probe_failure_swallowed\<close>).
\<close>

theorem declared_length_not_rejected:
  "upstream_head declared_env ''https://api.example.com/dump'' =
     Some \<lparr>status = 200, contentType = Some ''application/json'',
       contentLength = Some ''2000000'', data = JStr []\<rparr>
   \<and> probe declared_env ''https://api.example.com/dump'' =
       (None, [Head ''https://api.example.com/dump'' 0])
   \<and> handler declared_env ''/https://api.example.com/dump'' =
       (StatusJson 413 TOO_LARGE_RESPONSE,
        [Resolve4 ''api.example.com'', Resolve6 ''api.example.com'',
         Head ''https://api.example.com/dump'' 0, Get ''https://api.example.com/dump'' 0])"
  by (simp add: handler_def Let_def stage_defs declared_env_def sample_defs)

subsection \<open>The full fetch\<close>







text \<open>
  Claim C7, as the code has it. Every request to the target is made with
  \<^verbatim>\<open>maxRedirects: 0\<close> and for the target itself, so no redirect is followed. A full
  fetch that the target answers with a status from 300 to 399 is rejected by the client,
  and the handler answers 500 with the fetch error payload.
\<close>

theorem redirect_not_followed:
  "(Head v n \<in> set (snd (handler e (CHR ''/'' # targetUrl)))
      \<or> Get v n \<in> set (snd (handler e (CHR ''/'' # targetUrl))) \<longrightarrow>
    v = targetUrl \<and> n = 0)
   \<and> (targetUrl \<noteq> [] \<longrightarrow> fst (guard e targetUrl) = None \<longrightarrow> fst (probe e targetUrl) = None \<longrightarrow>
      upstream_get e targetUrl = Some r \<longrightarrow> 300 \<le> status r \<longrightarrow> status r < 400 \<longrightarrow>
      handler e (CHR ''/'' # targetUrl) =
        (StatusJson 500 FETCH_ERROR, snd (guard e targetUrl) @ [Head targetUrl 0, Get targetUrl 0]))"
proof (rule conjI)
  show "Head v n \<in> set (snd (handler e (CHR ''/'' # targetUrl)))
      \<or> Get v n \<in> set (snd (handler e (CHR ''/'' # targetUrl))) \<longrightarrow>
    v = targetUrl \<and> n = 0"
    using handler_events [of "Head v n" e targetUrl] handler_events [of "Get v n" e targetUrl]
    by auto
next
  show "targetUrl \<noteq> [] \<longrightarrow> fst (guard e targetUrl) = None \<longrightarrow> fst (probe e targetUrl) = None \<longrightarrow>
      upstream_get e targetUrl = Some r \<longrightarrow> 300 \<le> status r \<longrightarrow> status r < 400 \<longrightarrow>
      handler e (CHR ''/'' # targetUrl) =
        (StatusJson 500 FETCH_ERROR, snd (guard e targetUrl) @ [Head targetUrl 0, Get targetUrl 0])"
    using redirect_unsettled [of e targetUrl r]
    by (simp add: handler_reaches_fetch fetch_def)
qed

theorem redirect_not_followed_witness:
  "Get ''http://example.org/a'' 0 \<in> set (snd (handler moved_env ''/http://example.org/a''))
   \<and> handler moved_env ''/http://example.org/a'' =
       (StatusJson 500 FETCH_ERROR,
        [Resolve4 ''example.org'', Resolve6 ''example.org'',
         Head ''http://example.org/a'' 0, Get ''http://example.org/a'' 0])"
proof -
  let ?t = "''http://example.org/a''"
  let ?r = "answer 301 ''text/html'' (JStr [])"
  have h1: "?t \<noteq> []"
    by simp
  have h2: "guard moved_env ?t = (None, [Resolve4 ''example.org'', Resolve6 ''example.org''])"
    by (simp add: stage_defs moved_env_def sample_defs)
  have h3: "fst (probe moved_env ?t) = None"
    by (simp add: stage_defs moved_env_def sample_defs)
  have h4: "upstream_get moved_env ?t = Some ?r"
    by (simp add: moved_env_def sample_defs)
  have h5: "300 \<le> status ?r" and h6: "status ?r < 400"
    by (simp_all add: answer_def)
  have h7: "Get ?t 0 \<in> set (snd (handler moved_env (CHR ''/'' # ?t)))"
    by (simp add: handler_def Let_def stage_defs moved_env_def sample_defs)
  show ?thesis
    using redirect_not_followed [of ?t 0 moved_env ?t ?r] h1 h2 h3 h4 h5 h6 h7
    by simp
qed

text \<open>
  Claim C7 as stated fails: a target that answers GET with 302 gets the caller a 500, not
  the redirect.
\<close>

theorem redirect_answered_500:
  "upstream_get redirect_env ''https://api.example.com/old'' =
     Some (answer 302 ''application/json'' (JStr []))
   \<and> handler redirect_env ''/https://api.example.com/old'' =
       (StatusJson 500 FETCH_ERROR,
        [Resolve4 ''api.example.com'', Resolve6 ''api.example.com'',
         Head ''https://api.example.com/old'' 0, Get ''https://api.example.com/old'' 0])"
  by (simp add: handler_def Let_def stage_defs redirect_env_def sample_defs)

text \<open>
  Claim C10. When the full fetch succeeds with a content type starting with
  \<^verbatim>\<open>application/json\<close> and \<^verbatim>\<open>response.data.toString()\<close> throws, the inner
  \<^verbatim>\<open>catch\<close> forwards \<^verbatim>\<open>response.data\<close> with the default status 200.
\<close>

theorem size_check_failure_forwards:
  assumes "targetUrl \<noteq> []"
    and "fst (guard e targetUrl) = None"
    and "fst (probe e targetUrl) = None"
    and "axios_settle (upstream_get e targetUrl) = Some r"
    and "contentType r = Some ct"
    and "startsWith ct ''application/json''"
    and "toString (data r) = None"
  shows "handler e (CHR ''/'' # targetUrl) =
      (Send (data r), snd (guard e targetUrl) @ [Head targetUrl 0, Get targetUrl 0])
    \<and> http_status (fst (handler e (CHR ''/'' # targetUrl))) = 200"
  using assms by (simp add: handler_reaches_fetch fetch_json send_caught_thrown)

theorem size_check_failure_forwards_witness:
  "toString JNull = None
   \<and> handler null_env ''/https://api.example.com/none'' =
       (Send JNull,
        [Resolve4 ''api.example.com'', Resolve6 ''api.example.com'',
         Head ''https://api.example.com/none'' 0, Get ''https://api.example.com/none'' 0])
   \<and> http_status (fst (handler null_env ''/https://api.example.com/none'')) = 200"
proof -
  let ?t = "''https://api.example.com/none''"
  let ?r = "answer 200 ''application/json'' JNull"
  have h1: "?t \<noteq> []"
    by simp
  have g: "guard null_env ?t = (None, [Resolve4 ''api.example.com'', Resolve6 ''api.example.com''])"
    by (simp add: stage_defs null_env_def sample_defs)
  have h2: "fst (guard null_env ?t) = None"
    by (simp add: g)
  have h3: "fst (probe null_env ?t) = None"
    by (simp add: stage_defs null_env_def sample_defs)
  have h4: "axios_settle (upstream_get null_env ?t) = Some ?r"
    by (simp add: stage_defs null_env_def sample_defs)
  have h5: "contentType ?r = Some ''application/json''"
    by (simp add: answer_def)
  have h6: "startsWith ''application/json'' ''application/json''"
    by (simp add: startsWith_def)
  have h7: "toString (data ?r) = None"
    by (simp add: answer_def)
  show ?thesis
    using size_check_failure_forwards [OF h1 h2 h3 h4 h5 h6 h7] g by (simp add: answer_def)
qed

end
